theory Spec2Isabelle
  imports Complex_Main
begin

section \<open>Expressions\<close>

text \<open>
  The library encodes an expression as a type: \<^verbatim>\<open>value<v>\<close> (written \<^verbatim>\<open>val<v>\<close>), a
  variable, or \<^verbatim>\<open>operation<op, Ts...>\<close>. Type identity is structural identity, so an
  expression is a term of the datatype below and \<^verbatim>\<open>std::is_same_v\<close> is equality.
  The operator tags \<^verbatim>\<open>operators::add\<close> and \<^verbatim>\<open>operators::pow\<close> are the two defined in
  the sources; the set of operators is open, every further one is \<open>op_other\<close> with its
  name.
\<close>

datatype operators = op_add | op_pow | op_other string

datatype expr =
    val int
  | var string
  | operation operators "expr list"

text \<open>
  Modelled from the spec: \<^verbatim>\<open>traits::is_zero_value_v\<close> and \<^verbatim>\<open>traits::is_unit_value_v\<close>
  are declared in \<^verbatim>\<open>values.hpp\<close>, which is not among the sources. The spec (section 3)
  has two special constants, zero and unit, a constant being identified by its literal
  value: the zero value is \<^verbatim>\<open>val<0>\<close> and the unit value is \<^verbatim>\<open>val<1>\<close>.
\<close>

definition is_zero_value :: "expr \<Rightarrow> bool" where
  "is_zero_value e = (e = val 0)"

definition is_unit_value :: "expr \<Rightarrow> bool" where
  "is_unit_value e = (e = val 1)"

text \<open>
  \<^verbatim>\<open>operator*\<close>, \<^verbatim>\<open>operator-\<close> and \<^verbatim>\<open>log\<close> on expressions are called by the sources but
  defined in other files of the library. They are parameters of the model: every
  theorem below holds for whatever these three constructors return.
\<close>

record missing_operators =
  operator_times :: "expr \<Rightarrow> expr \<Rightarrow> expr"
  operator_minus :: "expr \<Rightarrow> expr \<Rightarrow> expr"
  log :: "expr \<Rightarrow> expr"

subsection \<open>add.hpp\<close>

text \<open>
  \<^verbatim>\<open>operator+(const A&, const B&)\<close>: the chain of \<^verbatim>\<open>if constexpr\<close> in its order.
  Its \<^verbatim>\<open>requires\<close> clause withdraws the template for an operand type with a member
  \<^verbatim>\<open>operator+\<close> of its own; the sources declare no such member, and the function is
  modelled where it applies.
\<close>

definition operator_plus :: "missing_operators \<Rightarrow> expr \<Rightarrow> expr \<Rightarrow> expr" where
  "operator_plus M A B =
     (if is_zero_value A then B
      else if is_zero_value B then A
      else if A = B then operator_times M (val 2) A
      else operation op_add [A, B])"

text \<open>
  \<^verbatim>\<open>derivative_of<operation<operators::add, T1, T2>>::wrt(var)\<close>. The dispatcher
  \<^verbatim>\<open>xp::detail::differentiate\<close> it calls is the parameter \<open>differentiate\<close>.
\<close>

definition derivative_of_add ::
  "missing_operators \<Rightarrow> (expr \<Rightarrow> expr \<Rightarrow> expr) \<Rightarrow> expr \<Rightarrow> expr \<Rightarrow> expr \<Rightarrow> expr" where
  "derivative_of_add M differentiate T1 T2 var' =
     operator_plus M (differentiate T1 var') (differentiate T2 var')"

text \<open>
  \<^verbatim>\<open>stream<operation<operators::add, T1, T2>>::to(out, values)\<close>, with the output
  stream passed as the text written so far and returned after the writes.
\<close>

definition stream_add_to ::
  "(expr \<Rightarrow> 'v \<Rightarrow> string \<Rightarrow> string) \<Rightarrow> expr \<Rightarrow> expr \<Rightarrow> 'v \<Rightarrow> string \<Rightarrow> string" where
  "stream_add_to write_to T1 T2 values out =
     (let out = write_to T1 values out;
          out = out @ '' + ''
      in write_to T2 values out)"

subsection \<open>pow.hpp\<close>

text \<open>\<^verbatim>\<open>pow(const A&, const B&)\<close>: the chain of \<^verbatim>\<open>if constexpr\<close> in its order.\<close>

definition pow :: "expr \<Rightarrow> expr \<Rightarrow> expr" where
  "pow A B =
     (if is_zero_value A then val 0
      else if is_unit_value A \<or> is_unit_value B then A
      else if is_zero_value B then val 1
      else operation op_pow [A, B])"

text \<open>
  \<^verbatim>\<open>derivative_of<operation<operators::pow, T1, T2>>::wrt(var)\<close>. In C++ \<^verbatim>\<open>*\<close> binds
  tighter than \<^verbatim>\<open>+\<close> and associates to the left.
\<close>

definition derivative_of_pow ::
  "missing_operators \<Rightarrow> (expr \<Rightarrow> expr \<Rightarrow> expr) \<Rightarrow> expr \<Rightarrow> expr \<Rightarrow> expr \<Rightarrow> expr" where
  "derivative_of_pow M differentiate T1 T2 var' =
     operator_plus M
       (operator_times M
          (operator_times M T2 (pow T1 (operator_minus M T2 (val 1))))
          (differentiate T1 var'))
       (operator_times M
          (operator_times M (pow T1 T2) (log M T2))
          (differentiate T2 var'))"

text \<open>
  Modelled from the spec: \<^verbatim>\<open>nodes_of_t\<close> is declared in \<^verbatim>\<open>expressions.hpp\<close>, which
  is not among the sources. It lists the nodes of the expression tree: a leaf is one
  node, a composite is itself and the nodes of its operands.
\<close>

fun nodes_of :: "expr \<Rightarrow> expr list" where
  "nodes_of (operation op Ts) = operation op Ts # concat (map nodes_of Ts)"
| "nodes_of e = [e]"

text \<open>
  \<^verbatim>\<open>stream<operation<operators::pow, T1, T2>>::to(out, values)\<close>. The output
  stream is the text written so far, \<^verbatim>\<open>out << s\<close> appends \<open>s\<close> to it, and the
  function returns the stream after its writes. \<^verbatim>\<open>write_to\<close> is defined in another
  file of the library and is a parameter here.
\<close>

definition stream_pow_to ::
  "(expr \<Rightarrow> 'v \<Rightarrow> string \<Rightarrow> string) \<Rightarrow> expr \<Rightarrow> expr \<Rightarrow> 'v \<Rightarrow> string \<Rightarrow> string" where
  "stream_pow_to write_to T1 T2 values out =
     (let out = write_to T1 values out;
          out = out @ ''^'';
          exponent_has_subterms = (1 < length (nodes_of T2));
          out = (if exponent_has_subterms then out @ ''('' else out);
          out = write_to T2 values out
      in if exponent_has_subterms then out @ '')'' else out)"

subsection \<open>Dispatch\<close>

text \<open>
  The four rules above receive the dispatcher as an argument. The congruence rules
  record that each applies it to its two operands only, which is what the recursive
  definitions of the dispatchers below terminate by.
\<close>

lemma derivative_of_add_cong [fundef_cong]:
  "\<lbrakk>M = M'; T1 = T1'; T2 = T2'; v = v';
    \<And>e. e = T1' \<or> e = T2' \<Longrightarrow> d e v' = d' e v'\<rbrakk>
   \<Longrightarrow> derivative_of_add M d T1 T2 v = derivative_of_add M' d' T1' T2' v'"
  by (simp add: derivative_of_add_def)

lemma derivative_of_pow_cong [fundef_cong]:
  "\<lbrakk>M = M'; T1 = T1'; T2 = T2'; v = v';
    \<And>e. e = T1' \<or> e = T2' \<Longrightarrow> d e v' = d' e v'\<rbrakk>
   \<Longrightarrow> derivative_of_pow M d T1 T2 v = derivative_of_pow M' d' T1' T2' v'"
  by (simp add: derivative_of_pow_def)

lemma stream_add_to_cong [fundef_cong]:
  "\<lbrakk>T1 = T1'; T2 = T2'; vs = vs'; out = out';
    \<And>e s. e = T1' \<or> e = T2' \<Longrightarrow> w e vs' s = w' e vs' s\<rbrakk>
   \<Longrightarrow> stream_add_to w T1 T2 vs out = stream_add_to w' T1' T2' vs' out'"
  by (simp add: stream_add_to_def)

lemma stream_pow_to_cong [fundef_cong]:
  "\<lbrakk>T1 = T1'; T2 = T2'; vs = vs'; out = out';
    \<And>e s. e = T1' \<or> e = T2' \<Longrightarrow> w e vs' s = w' e vs' s\<rbrakk>
   \<Longrightarrow> stream_pow_to w T1 T2 vs out = stream_pow_to w' T1' T2' vs' out'"
  by (simp add: stream_pow_to_def)

text \<open>
  Modelled from the spec: \<^verbatim>\<open>xp::detail::differentiate\<close> is defined in
  \<^verbatim>\<open>expressions.hpp\<close>, which is not among the sources. Section 4.3 of the spec: the
  derivative of a constant is the zero value; the derivative of a variable is the unit
  value if it is the target variable and the zero value otherwise; for a composite the
  engine dispatches to the rule registered for its operator. The rules of \<open>op_add\<close>
  and \<open>op_pow\<close> are the two of the sources; the rules of all other operators are the
  parameter \<open>rules\<close>.
\<close>

fun differentiate ::
  "missing_operators \<Rightarrow> (operators \<Rightarrow> expr list \<Rightarrow> expr \<Rightarrow> expr) \<Rightarrow> expr \<Rightarrow> expr \<Rightarrow> expr" where
  "differentiate M rules (val c) v = val 0"
| "differentiate M rules (var x) v = (if var x = v then val 1 else val 0)"
| "differentiate M rules (operation op_add [T1, T2]) v =
     derivative_of_add M (\<lambda>e v. differentiate M rules e v) T1 T2 v"
| "differentiate M rules (operation op_pow [T1, T2]) v =
     derivative_of_pow M (\<lambda>e v. differentiate M rules e v) T1 T2 v"
| "differentiate M rules (operation op Ts) v = rules op Ts v"

text \<open>
  Modelled from the spec: \<^verbatim>\<open>write_to\<close> is defined in \<^verbatim>\<open>expressions.hpp\<close>, which is not
  among the sources. Section 4.4 of the spec: rendering walks the tree and each
  operator supplies its own rule. The rules of \<open>op_add\<close> and \<open>op_pow\<close> are the two of
  the sources; how a leaf or a node of another operator is written is the parameter
  \<open>rules\<close>.
\<close>

fun write_to ::
  "(expr \<Rightarrow> 'v \<Rightarrow> string \<Rightarrow> string) \<Rightarrow> expr \<Rightarrow> 'v \<Rightarrow> string \<Rightarrow> string" where
  "write_to rules (operation op_add [T1, T2]) values out =
     stream_add_to (\<lambda>e values out. write_to rules e values out) T1 T2 values out"
| "write_to rules (operation op_pow [T1, T2]) values out =
     stream_pow_to (\<lambda>e values out. write_to rules e values out) T1 T2 values out"
| "write_to rules e values out = rules e values out"

text \<open>
  Modelled from the spec: \<^verbatim>\<open>operator*\<close>, \<^verbatim>\<open>operator-\<close> and \<^verbatim>\<open>log\<close> are not among the
  sources. Section 4.2 of the spec has every operator build its generic node when no
  simplification applies. This instance builds the generic node in every case; it only
  serves to evaluate, at concrete inputs, theorems that hold for every instance.
\<close>

definition generic :: missing_operators where
  "generic =
     \<lparr>operator_times = (\<lambda>a b. operation (op_other ''multiply'') [a, b]),
      operator_minus = (\<lambda>a b. operation (op_other ''subtract'') [a, b]),
      log = (\<lambda>a. operation (op_other ''log'') [a])\<rparr>"

section \<open>Tensors\<close>

text \<open>
  A rejection at compile time (a failed \<^verbatim>\<open>static_assert\<close>, a \<^verbatim>\<open>requires\<close> clause that
  no specialisation satisfies) is the error value: the spec's construction error.
\<close>

datatype error = construction_error

definition and_then :: "error + 'a \<Rightarrow> ('a \<Rightarrow> error + 'b) \<Rightarrow> error + 'b" where
  "and_then r f = (case r of Inl e \<Rightarrow> Inl e | Inr x \<Rightarrow> f x)"

type_synonym md_shape = "nat list"
type_synonym md_index = "nat list"

text \<open>
  Modelled from the spec: \<^verbatim>\<open>md_shape\<close>, \<^verbatim>\<open>md_index\<close> and \<^verbatim>\<open>visit_indices_in\<close> are
  declared in \<^verbatim>\<open>utils.hpp\<close>, which is not among the sources. Sections 3 and 4.1 of the
  spec: a shape is the sequence of per-axis extents, its count is the product of the
  extents, the flat offset of a multi-index is row-major,
  \<open>offset = \<Sum> idx[k] * \<Prod> extent[k+1..]\<close>, and the last axis varies fastest.
  \<^verbatim>\<open>visit_indices_in\<close> calls the visitor on every multi-index of the shape; the
  visitor updates the variables it captured by reference, passed here as its state.
\<close>

definition count :: "md_shape \<Rightarrow> nat" where
  "count s = prod_list s"

fun as_flat_index_in :: "md_index \<Rightarrow> md_shape \<Rightarrow> nat" where
  "as_flat_index_in (i # idx) (e # s) = i * count s + as_flat_index_in idx s"
| "as_flat_index_in idx s = 0"

fun indices_in :: "md_shape \<Rightarrow> md_index list" where
  "indices_in [] = [[]]"
| "indices_in (e # s) = concat (map (\<lambda>i. map ((#) i) (indices_in s)) [0..<e])"

definition visit_indices_in :: "md_shape \<Rightarrow> (md_index \<Rightarrow> 's \<Rightarrow> 's) \<Rightarrow> 's \<Rightarrow> 's" where
  "visit_indices_in s visitor state = fold visitor (indices_in s) state"

subsection \<open>linalg.hpp\<close>

text \<open>
  \<^verbatim>\<open>tensor<T, shape>\<close>: the shape, a template argument, and the member \<^verbatim>\<open>_values\<close>, a
  \<^verbatim>\<open>std::array<T, shape::count>\<close>. The array type fixes the number of elements;
  \<open>well_formed\<close> says so of a record.
\<close>

record 'a tensor =
  shape :: md_shape
  "values" :: "'a list"

definition well_formed :: "'a tensor \<Rightarrow> bool" where
  "well_formed t = (length (values t) = count (shape t))"

text \<open>\<^verbatim>\<open>tensor()\<close> followed by \<^verbatim>\<open>{}\<close>: every element value-initialised.\<close>

definition tensor_default :: "md_shape \<Rightarrow> 'a::zero tensor" where
  "tensor_default s = \<lparr>shape = s, values = replicate (count s) 0\<rparr>"

text \<open>
  \<^verbatim>\<open>tensor::operator[](const md_index<i...>&)\<close> with its \<^verbatim>\<open>static_assert\<close>, read
  (\<open>operator_subscript\<close>) and written through the returned reference
  (\<open>subscript_assign\<close>).
\<close>

definition operator_subscript :: "'a tensor \<Rightarrow> md_index \<Rightarrow> error + 'a" where
  "operator_subscript self idx =
     (if as_flat_index_in idx (shape self) < count (shape self)
      then Inr (values self ! as_flat_index_in idx (shape self))
      else Inl construction_error)"

definition subscript_assign :: "'a tensor \<Rightarrow> md_index \<Rightarrow> 'a \<Rightarrow> error + 'a tensor" where
  "subscript_assign self idx v =
     (if as_flat_index_in idx (shape self) < count (shape self)
      then Inr (self\<lparr>values := (values self)[as_flat_index_in idx (shape self) := v]\<rparr>)
      else Inl construction_error)"

text \<open>\<^verbatim>\<open>traits::access<tensor<T, shape>>::at(idx, tensor)\<close>.\<close>

definition access_at :: "md_index \<Rightarrow> 'a tensor \<Rightarrow> error + 'a" where
  "access_at idx t = operator_subscript t idx"

text \<open>
  \<^verbatim>\<open>tensor::operator==(const tensor<T2, shape2>&)\<close>, a member template: the other
  tensor has a scalar type \<^verbatim>\<open>T2\<close> of its own. The visitor's captured variable is
  \<^verbatim>\<open>all_equal\<close>. \<open>scalars_differ\<close> is \<^verbatim>\<open>!=\<close> between a scalar of \<^verbatim>\<open>T\<close> and one of \<^verbatim>\<open>T2\<close>,
  whatever the two scalar types make of it (a floating-point value that is not a number
  is unequal to itself).
\<close>

definition operator_eq :: "('a \<Rightarrow> 'b \<Rightarrow> bool) \<Rightarrow> 'a tensor \<Rightarrow> 'b tensor \<Rightarrow> error + bool" where
  "operator_eq scalars_differ self other =
     (if shape other \<noteq> shape self then Inr False
      else visit_indices_in (shape self)
             (\<lambda>idx all_equal.
                and_then all_equal (\<lambda>all_equal.
                and_then (operator_subscript self idx) (\<lambda>x.
                and_then (operator_subscript other idx) (\<lambda>y.
                  Inr (if scalars_differ x y then False else all_equal)))))
             (Inr True))"

text \<open>
  \<^verbatim>\<open>linalg::concepts::tensor<T>\<close>. A \<^verbatim>\<open>linalg::tensor<T, shape>\<close> is default
  constructible and has \<^verbatim>\<open>shape_of\<close>, \<^verbatim>\<open>scalar_type\<close> and \<^verbatim>\<open>access\<close> complete; the
  concept's last requirement is that
  \<^verbatim>\<open>access<T>::at(*(md_index_iterator{shape_of_t<T>{}}), t)\<close> compiles, which the
  \<^verbatim>\<open>static_assert\<close> of \<^verbatim>\<open>operator[]\<close> decides.

  Modelled from the spec: \<^verbatim>\<open>md_index_iterator\<close> is declared in \<^verbatim>\<open>utils.hpp\<close>, which is
  not among the sources. An iterator over the multi-indices of a shape starts at the
  first one in row-major order, every component zero.
\<close>

definition first_index :: "md_shape \<Rightarrow> md_index" where
  "first_index s = replicate (length s) 0"

definition concepts_tensor :: "'a tensor \<Rightarrow> bool" where
  "concepts_tensor t =
     (case access_at (first_index (shape t)) t of Inl e \<Rightarrow> False | Inr x \<Rightarrow> True)"

text \<open>
  \<^verbatim>\<open>multiplication_of<T1, T2>\<close> for two tensors. The template is constrained by the
  concept on \<^verbatim>\<open>T1\<close> and on \<^verbatim>\<open>T2\<close> and by its \<^verbatim>\<open>requires\<close> clause, which admits equal
  shapes only; where a constraint fails the sources have no specialisation and the
  application does not compile. The two scalar types are independent. The result is a
  \<^verbatim>\<open>scalar_type_t<T1>\<close> started at 0; \<open>times_scalar\<close> is \<^verbatim>\<open>*\<close> between a scalar of
  \<^verbatim>\<open>T1\<close> and one of \<^verbatim>\<open>T2\<close>, and \<open>plus_assign\<close> is \<^verbatim>\<open>+=\<close> of such a product to a
  scalar of \<^verbatim>\<open>T1\<close>, with the conversion back that it implies.
\<close>

definition multiplication_of ::
  "('a \<Rightarrow> 'b \<Rightarrow> 'p) \<Rightarrow> ('a \<Rightarrow> 'p \<Rightarrow> 'a) \<Rightarrow> 'a::zero tensor \<Rightarrow> 'b tensor \<Rightarrow> error + 'a" where
  "multiplication_of times_scalar plus_assign A B =
     (if \<not> concepts_tensor A then Inl construction_error
      else if \<not> concepts_tensor B then Inl construction_error
      else if shape A \<noteq> shape B then Inl construction_error
      else visit_indices_in (shape A)
             (\<lambda>idx result.
                and_then result (\<lambda>result.
                and_then (access_at idx A) (\<lambda>a.
                and_then (access_at idx B) (\<lambda>b.
                  Inr (plus_assign result (times_scalar a b))))))
             (Inr 0))"

text \<open>
  \<^verbatim>\<open>addition_of<T1, T2>\<close> for two tensors, under the same constraints. The result is a
  value-initialised tensor of the shape of \<^verbatim>\<open>T1\<close> whose scalar type is the common type
  of the two scalar types, assigned index by index; \<open>plus_scalar\<close> is \<^verbatim>\<open>+\<close> between a
  scalar of \<^verbatim>\<open>T1\<close> and one of \<^verbatim>\<open>T2\<close>, as stored in the result.
\<close>

definition addition_of ::
  "('a \<Rightarrow> 'b \<Rightarrow> 'c) \<Rightarrow> 'a tensor \<Rightarrow> 'b tensor \<Rightarrow> error + 'c::zero tensor" where
  "addition_of plus_scalar A B =
     (if \<not> concepts_tensor A then Inl construction_error
      else if \<not> concepts_tensor B then Inl construction_error
      else if shape A \<noteq> shape B then Inl construction_error
      else visit_indices_in (shape A)
             (\<lambda>idx result.
                and_then result (\<lambda>result.
                and_then (access_at idx A) (\<lambda>a.
                and_then (access_at idx B) (\<lambda>b.
                  subscript_assign result idx (plus_scalar a b)))))
             (Inr (tensor_default (shape A))))"



section \<open>Visiting the indices of a shape\<close>

lemma blocks_upt:
  "concat (map (\<lambda>i. map (\<lambda>j. i * c + j) [0..<c]) [0..<e]) = [0..<e * c]"
proof (induction e)
  case 0
  show ?case by simp
next
  case (Suc e)
  have block: "map (\<lambda>j. e * c + j) [0..<c] = [e * c..<e * c + c]"
    using map_add_upt [of "e * c" c] by (simp add: add.commute)
  have split: "[0..<e * c + c] = [0..<e * c] @ [e * c..<e * c + c]"
    using upt_add_eq_append [of 0 "e * c" c] by simp
  have "concat (map (\<lambda>i. map (\<lambda>j. i * c + j) [0..<c]) [0..<Suc e]) =
        concat (map (\<lambda>i. map (\<lambda>j. i * c + j) [0..<c]) [0..<e]) @ map (\<lambda>j. e * c + j) [0..<c]"
    by simp
  also have "\<dots> = [0..<e * c] @ [e * c..<e * c + c]"
    by (simp only: Suc.IH block)
  also have "\<dots> = [0..<Suc e * c]"
    using split by (simp add: add.commute)
  finally show ?case .
qed

text \<open>The visit meets the flat offsets \<open>0, 1, \<dots>, count - 1\<close>, each once and in order.\<close>

lemma flat_indices_in:
  "map (\<lambda>idx. as_flat_index_in idx s) (indices_in s) = [0..<count s]"
proof (induction s)
  case Nil
  show ?case by (simp add: count_def)
next
  case (Cons e s)
  have "map (\<lambda>idx. as_flat_index_in idx (e # s)) (indices_in (e # s)) =
        concat (map (\<lambda>i. map (\<lambda>j. i * count s + j)
          (map (\<lambda>idx. as_flat_index_in idx s) (indices_in s))) [0..<e])"
    by (simp add: map_concat comp_def)
  also have "\<dots> = [0..<e * count s]"
    by (simp only: Cons.IH blocks_upt)
  finally show ?case by (simp add: count_def)
qed

lemma visited_in_bounds:
  assumes "idx \<in> set (indices_in s)"
  shows "as_flat_index_in idx s < count s"
proof -
  from assms
  have "as_flat_index_in idx s \<in> set (map (\<lambda>idx. as_flat_index_in idx s) (indices_in s))"
    by simp
  then show ?thesis
    by (simp only: flat_indices_in) simp
qed

lemma operator_subscript_visited:
  "idx \<in> set (indices_in (shape t)) \<Longrightarrow>
   operator_subscript t idx = Inr (values t ! as_flat_index_in idx (shape t))"
  by (simp add: operator_subscript_def visited_in_bounds)

text \<open>A visit whose steps all succeed, under an invariant of the visitor's state.\<close>

lemma fold_Inr:
  assumes "I r"
    and "\<And>x r. x \<in> set xs \<Longrightarrow> I r \<Longrightarrow> step x (Inr r) = Inr (h x r) \<and> I (h x r)"
  shows "fold step xs (Inr r) = Inr (fold h xs r) \<and> I (fold h xs r)"
  using assms
proof (induction xs arbitrary: r)
  case Nil
  then show ?case by simp
next
  case (Cons x xs)
  from Cons.prems have s: "step x (Inr r) = Inr (h x r)" and i: "I (h x r)"
    by simp_all
  from Cons.IH [OF i] Cons.prems(2) s show ?case
    by simp
qed

lemma fold_update_upt:
  "k \<le> length vs \<Longrightarrow>
   fold (\<lambda>i vs. vs[i := g i]) [0..<k] vs = map g [0..<k] @ drop k vs"
proof (induction k)
  case 0
  show ?case by simp
next
  case (Suc k)
  then have k: "k < length vs" by simp
  then have "drop k vs = vs ! k # drop (Suc k) vs"
    by (simp add: Cons_nth_drop_Suc)
  then have "(map g [0..<k] @ drop k vs)[k := g k] = map g [0..<k] @ g k # drop (Suc k) vs"
    by (simp add: list_update_append)
  with Suc.IH k show ?case by simp
qed

lemma fold_assign_values:
  "fold (\<lambda>idx r. r\<lparr>values := (values r)[f idx := g (f idx)]\<rparr>) idxs (r::'a tensor) =
   r\<lparr>values := fold (\<lambda>i vs. vs[i := g i]) (map f idxs) (values r)\<rparr>"
  by (induction idxs arbitrary: r) simp_all

lemma fold_conj:
  "fold (\<lambda>i (b::bool). if p i then False else b) xs b = (b \<and> (\<forall>i\<in>set xs. \<not> p i))"
  by (induction xs arbitrary: b) auto

lemma fold_plus:
  "fold (\<lambda>i (r::'a::monoid_add). r + g i) xs a = a + sum_list (map g xs)"
  by (induction xs arbitrary: a) (simp_all add: add.assoc)

lemma map_nth_zip:
  assumes "length xs = n" and "length ys = n"
  shows "map (\<lambda>i. f (xs ! i) (ys ! i)) [0..<n] = map2 f xs ys"
  using assms by (intro nth_equalityI) simp_all

lemma zip_nth_upt:
  assumes "length xs = n" and "length ys = n"
  shows "zip xs ys = map (\<lambda>i. (xs ! i, ys ! i)) [0..<n]"
  using assms by (intro nth_equalityI) simp_all

lemma flat_first_index: "as_flat_index_in (replicate (length s) 0) s = 0"
  by (induction s) simp_all

text \<open>The concept holds of a tensor exactly when its shape has an element.\<close>

lemma concepts_tensor_count: "concepts_tensor t = (0 < count (shape t))"
  by (simp add: concepts_tensor_def access_at_def operator_subscript_def first_index_def
      flat_first_index)

text \<open>
  The contraction of the sources, for any two scalar types: the products are added to
  the result one by one, in the order of the flat stores.
\<close>

lemma multiplication_of_foldl:
  fixes A :: "'a::zero tensor" and B :: "'b tensor"
  assumes "well_formed A" and "well_formed B"
    and "concepts_tensor A" and "concepts_tensor B" and "shape A = shape B"
  shows "multiplication_of f g A B =
     Inr (foldl (\<lambda>r (a, b). g r (f a b)) 0 (zip (values A) (values B)))"
proof -
  let ?n = "count (shape A)"
  let ?f = "\<lambda>idx. as_flat_index_in idx (shape A)"
  let ?step = "\<lambda>idx result.
        and_then result (\<lambda>result.
        and_then (access_at idx A) (\<lambda>a.
        and_then (access_at idx B) (\<lambda>b.
          Inr (g result (f a b)))))"
  let ?k = "\<lambda>i (r::'a). g r (f (values A ! i) (values B ! i))"
  let ?h = "\<lambda>idx. ?k (?f idx)"
  have step: "?step idx (Inr r) = Inr (?h idx r) \<and> True"
    if "idx \<in> set (indices_in (shape A))" for idx r
    using that assms(5) by (simp add: and_then_def access_at_def operator_subscript_visited)
  have "fold ?step (indices_in (shape A)) (Inr 0) =
        Inr (fold ?h (indices_in (shape A)) 0) \<and> True"
    by (rule fold_Inr [where I = "\<lambda>_. True"]) (simp_all only: step)
  then have run: "multiplication_of f g A B = Inr (fold ?h (indices_in (shape A)) 0)"
    using assms(3-5) by (simp add: multiplication_of_def visit_indices_in_def)
  have "fold ?h (indices_in (shape A)) 0 = fold ?k (map ?f (indices_in (shape A))) 0"
    by (simp add: fold_map comp_def)
  also have "\<dots> = fold ?k [0..<?n] 0"
    by (simp only: flat_indices_in)
  also have "\<dots> = fold (\<lambda>(a, b) r. g r (f a b)) (map (\<lambda>i. (values A ! i, values B ! i)) [0..<?n]) 0"
    by (simp add: fold_map comp_def)
  also have "map (\<lambda>i. (values A ! i, values B ! i)) [0..<?n] = zip (values A) (values B)"
    using assms(1,2,5) by (intro zip_nth_upt [symmetric]) (simp_all add: well_formed_def)
  also have "fold (\<lambda>(a, b) r. g r (f a b)) (zip (values A) (values B)) 0 =
        foldl (\<lambda>r (a, b). g r (f a b)) 0 (zip (values A) (values B))"
    by (simp add: foldl_conv_fold case_prod_unfold)
  finally show ?thesis using run by simp
qed

text \<open>Where the scalars form a monoid, adding the products from 0 is their sum.\<close>

lemma multiplication_of_sum_list:
  fixes A B :: "'a::{monoid_add,times} tensor"
  assumes "well_formed A" and "well_formed B"
    and "concepts_tensor A" and "concepts_tensor B" and "shape A = shape B"
  shows "multiplication_of (*) (+) A B = Inr (sum_list (map2 (*) (values A) (values B)))"
proof -
  have "foldl (\<lambda>r (a, b). r + a * b) 0 (zip (values A) (values B)) =
        fold (\<lambda>p r. r + (case p of (a, b) \<Rightarrow> a * b)) (zip (values A) (values B)) 0"
    by (simp add: foldl_conv_fold case_prod_unfold)
  also have "\<dots> = 0 + sum_list (map2 (*) (values A) (values B))"
    by (rule fold_plus)
  finally show ?thesis
    using multiplication_of_foldl [OF assms, of "(*)" "(+)"] by simp
qed

section \<open>Nodes of an expression\<close>

lemma nodes_of_nonempty: "nodes_of e \<noteq> []"
  by (cases e) simp_all

lemma multi_term:
  "(1 < length (nodes_of T2)) = (\<exists>op T Ts. T2 = operation op (T # Ts))"
proof (cases T2)
  case (operation op Ts)
  show ?thesis
  proof (cases Ts)
    case Nil
    with operation show ?thesis by simp
  next
    case (Cons T Ts')
    with operation show ?thesis by (simp add: nodes_of_nonempty)
  qed
qed simp_all

section \<open>Construction-time simplification\<close>

text \<open>
  C3. For every expression \<open>a\<close>, constructing \<open>a + zero\<close> yields \<open>a\<close> and constructing
  \<open>zero + a\<close> yields \<open>a\<close>: the result is the operand itself, whatever the missing
  operators are, so no add node is built.
\<close>

theorem additive_identity:
  "operator_plus M a (val 0) = a \<and> operator_plus M (val 0) a = a"
  by (simp add: operator_plus_def is_zero_value_def)

text \<open>
  C4. For every expression \<open>a\<close> that is not the zero value, constructing \<open>a + a\<close>
  yields what constructing \<open>2 * a\<close> yields: the third branch of \<^verbatim>\<open>operator+\<close> is
  taken, not the fourth, which would build the add node.
\<close>

theorem self_addition_doubling:
  "\<not> is_zero_value a \<Longrightarrow> operator_plus M a a = operator_times M (val 2) a"
  by (simp add: operator_plus_def)

theorem self_addition_doubling_witness:
  "\<not> is_zero_value (var ''x'') \<and>
   operator_plus generic (var ''x'') (var ''x'') =
     operation (op_other ''multiply'') [val 2, var ''x'']"
proof -
  have nz: "\<not> is_zero_value (var ''x'')"
    by (simp add: is_zero_value_def)
  from self_addition_doubling [OF nz, of generic] nz show ?thesis
    by (simp add: generic_def)
qed

text \<open>
  C2, as the sources have it. For all expressions \<open>a\<close> and \<open>b\<close>: \<open>pow(a, unit)\<close>
  constructs to \<open>a\<close>; \<open>pow(a, zero)\<close> constructs to the unit value for every \<open>a\<close> that
  is not the zero value; \<open>pow(zero, b)\<close> constructs to the zero value (for every \<open>b\<close>,
  so for the nonzero ones); \<open>pow(unit, b)\<close> constructs to the unit value.
\<close>

theorem power_identities:
  "pow a (val 1) = a \<and>
   (\<not> is_zero_value a \<longrightarrow> pow a (val 0) = val 1) \<and>
   pow (val 0) b = val 0 \<and>
   pow (val 1) b = val 1"
  by (simp add: pow_def is_zero_value_def is_unit_value_def)

theorem power_identities_witness:
  "\<not> is_zero_value (var ''x'') \<and>
   pow (var ''x'') (val 1) = var ''x'' \<and>
   pow (var ''x'') (val 0) = val 1 \<and>
   pow (val 0) (var ''y'') = val 0 \<and>
   pow (val 1) (var ''y'') = val 1"
proof -
  have nz: "\<not> is_zero_value (var ''x'')"
    by (simp add: is_zero_value_def)
  from power_identities [of "var ''x''" "var ''y''"] nz show ?thesis
    by simp
qed

text \<open>
  C2, as the spec states it, fails at the zero value: \<open>pow(zero, zero)\<close> constructs to
  the zero value, which is not the unit value.
\<close>

theorem power_zero_exponent_counterexample:
  "pow (val 0) (val 0) = val 0 \<and> pow (val 0) (val 0) \<noteq> val 1"
  by (simp add: pow_def is_zero_value_def)

text \<open>
  C10. \<^verbatim>\<open>pow\<close> applies its checks in a fixed order: a zero base gives the zero value
  whatever the exponent; otherwise a unit base or a unit exponent gives the base;
  otherwise a zero exponent gives the unit value. So \<open>pow(zero, zero)\<close> is the zero
  value, not the unit value, and \<open>pow(zero, unit)\<close> is the zero value as well.
\<close>

theorem pow_precedence:
  "(is_zero_value a \<longrightarrow> pow a b = val 0) \<and>
   (\<not> is_zero_value a \<and> (is_unit_value a \<or> is_unit_value b) \<longrightarrow> pow a b = a) \<and>
   (\<not> is_zero_value a \<and> \<not> is_unit_value a \<and> \<not> is_unit_value b \<and> is_zero_value b
      \<longrightarrow> pow a b = val 1) \<and>
   is_zero_value (pow (val 0) (val 0)) \<and>
   \<not> is_unit_value (pow (val 0) (val 0))"
  by (simp add: pow_def is_zero_value_def is_unit_value_def)

theorem pow_precedence_witness:
  "is_zero_value (val 0) \<and> pow (val 0) (val 0) = val 0 \<and> pow (val 0) (val 1) = val 0 \<and>
   \<not> is_zero_value (var ''x'') \<and> is_unit_value (val 1) \<and>
   pow (var ''x'') (val 1) = var ''x'' \<and>
   \<not> is_unit_value (var ''x'') \<and> \<not> is_unit_value (val 0) \<and>
   pow (var ''x'') (val 0) = val 1"
  using pow_precedence [of "val 0" "val 0"] pow_precedence [of "val 0" "val 1"]
    pow_precedence [of "var ''x''" "val 1"] pow_precedence [of "var ''x''" "val 0"]
  by (simp add: is_zero_value_def is_unit_value_def)

section \<open>Differentiation\<close>

text \<open>
  C5. For every generic addition node \<open>a + b\<close> and every target variable \<open>v\<close>, the
  derivative of \<open>a + b\<close> is the derivative of \<open>a\<close> plus the derivative of \<open>b\<close>, built by
  \<^verbatim>\<open>operator+\<close> itself: whatever the dispatcher \<open>d\<close> is, a summand whose derivative
  is the zero value is dropped from the result.
\<close>

theorem sum_rule:
  assumes "operator_plus M a b = operation op_add [a, b]"
  shows "differentiate M rules (operator_plus M a b) v =
           operator_plus M (differentiate M rules a v) (differentiate M rules b v) \<and>
         derivative_of_add M d a b v = operator_plus M (d a v) (d b v) \<and>
         (is_zero_value (d a v) \<longrightarrow> derivative_of_add M d a b v = d b v) \<and>
         (is_zero_value (d b v) \<longrightarrow> derivative_of_add M d a b v = d a v)"
  using assms by (simp add: derivative_of_add_def operator_plus_def is_zero_value_def)

theorem sum_rule_witness:
  "operator_plus generic (var ''x'') (var ''y'') = operation op_add [var ''x'', var ''y''] \<and>
   is_zero_value (differentiate generic (\<lambda>op Ts v. val 0) (var ''y'') (var ''x'')) \<and>
   differentiate generic (\<lambda>op Ts v. val 0)
     (operator_plus generic (var ''x'') (var ''y'')) (var ''x'') = val 1 \<and>
   is_zero_value (differentiate generic (\<lambda>op Ts v. val 0) (var ''x'') (var ''y'')) \<and>
   differentiate generic (\<lambda>op Ts v. val 0)
     (operator_plus generic (var ''x'') (var ''y'')) (var ''y'') = val 1"
proof -
  let ?d = "differentiate generic (\<lambda>op Ts v. val 0)"
  have node: "operator_plus generic (var ''x'') (var ''y'') = operation op_add [var ''x'', var ''y'']"
    by (simp add: operator_plus_def is_zero_value_def)
  have zx: "is_zero_value (?d (var ''y'') (var ''x''))"
    and zy: "is_zero_value (?d (var ''x'') (var ''y''))"
    by (simp_all add: is_zero_value_def)
  from sum_rule [OF node, of "\<lambda>op Ts v. val 0" "var ''x''" ?d]
    sum_rule [OF node, of "\<lambda>op Ts v. val 0" "var ''y''" ?d] node zx zy
  show ?thesis by (simp add: operator_plus_def is_zero_value_def)
qed

text \<open>
  C1. For every power node \<open>pow(a, b)\<close> built as a generic composite and every target
  variable \<open>v\<close>, the derivative of \<open>pow(a, b)\<close> is
  \<open>b * pow(a, b - 1) * d(a) + pow(a, b) * log(b) * d(b)\<close>, the products associated to
  the left and the logarithm taken of the exponent \<open>b\<close>; the rule of the sources gives
  this expression for every dispatcher \<open>d\<close>.
\<close>

theorem power_rule:
  assumes "pow a b = operation op_pow [a, b]"
  shows "differentiate M rules (pow a b) v =
           operator_plus M
             (operator_times M
                (operator_times M b (pow a (operator_minus M b (val 1))))
                (differentiate M rules a v))
             (operator_times M
                (operator_times M (pow a b) (log M b))
                (differentiate M rules b v)) \<and>
         derivative_of_pow M d a b v =
           operator_plus M
             (operator_times M
                (operator_times M b (pow a (operator_minus M b (val 1))))
                (d a v))
             (operator_times M
                (operator_times M (pow a b) (log M b))
                (d b v))"
  using assms by (simp add: derivative_of_pow_def)

theorem power_rule_witness:
  "pow (var ''x'') (val 3) = operation op_pow [var ''x'', val 3] \<and>
   differentiate generic (\<lambda>op Ts v. val 0) (pow (var ''x'') (val 3)) (var ''x'') =
     operation op_add
       [operation (op_other ''multiply'')
          [operation (op_other ''multiply'')
             [val 3,
              operation op_pow [var ''x'', operation (op_other ''subtract'') [val 3, val 1]]],
           val 1],
        operation (op_other ''multiply'')
          [operation (op_other ''multiply'')
             [operation op_pow [var ''x'', val 3], operation (op_other ''log'') [val 3]],
           val 0]]"
proof -
  have node: "pow (var ''x'') (val 3) = operation op_pow [var ''x'', val 3]"
    by (simp add: pow_def is_zero_value_def is_unit_value_def)
  from power_rule [OF node, of generic "\<lambda>op Ts v. val 0" "var ''x''"] node
  show ?thesis
    by (simp add: generic_def operator_plus_def pow_def is_zero_value_def is_unit_value_def)
qed

section \<open>Rendering\<close>

text \<open>
  C9. Rendering a power node writes the base, then the caret, then the exponent, the
  exponent between parentheses if and only if it has more than one node, that is, if
  and only if it is a composite with an operand. So \<open>pow(y, 2)\<close> is written with its
  exponent bare and \<open>pow(x, y + 1)\<close> with its exponent in parentheses. An addition node
  writes its left operand, then \<open>" + "\<close>, then its right operand, as in
  \<open>x + pow(y, 2)\<close>.
\<close>

theorem rendering_rules:
  "stream_pow_to w T1 T2 vs out =
     (if 1 < length (nodes_of T2)
      then w T2 vs (w T1 vs out @ ''^('') @ '')''
      else w T2 vs (w T1 vs out @ ''^'')) \<and>
   (1 < length (nodes_of T2)) = (\<exists>op T Ts. T2 = operation op (T # Ts)) \<and>
   stream_add_to w T1 T2 vs out = w T2 vs (w T1 vs out @ '' + '') \<and>
   write_to rules (pow (var ''y'') (val 2)) vs out =
     rules (val 2) vs (rules (var ''y'') vs out @ ''^'') \<and>
   write_to rules (pow (var ''x'') (operator_plus M (var ''y'') (val 1))) vs out =
     rules (val 1) vs (rules (var ''y'') vs (rules (var ''x'') vs out @ ''^('') @ '' + '') @ '')'' \<and>
   write_to rules (operator_plus M (var ''x'') (pow (var ''y'') (val 2))) vs out =
     rules (val 2) vs (rules (var ''y'') vs (rules (var ''x'') vs out @ '' + '') @ ''^'')"
proof -
  have power: "stream_pow_to w T1 T2 vs out =
     (if 1 < length (nodes_of T2)
      then w T2 vs (w T1 vs out @ ''^('') @ '')''
      else w T2 vs (w T1 vs out @ ''^''))"
    by (simp add: stream_pow_to_def Let_def)
  have sum: "stream_add_to w T1 T2 vs out = w T2 vs (w T1 vs out @ '' + '')"
    by (simp add: stream_add_to_def)
  have y2: "pow (var ''y'') (val 2) = operation op_pow [var ''y'', val 2]"
    and y1: "operator_plus M (var ''y'') (val 1) = operation op_add [var ''y'', val 1]"
    by (simp_all add: pow_def operator_plus_def is_zero_value_def is_unit_value_def)
  have xy1: "pow (var ''x'') (operation op_add [var ''y'', val 1]) =
      operation op_pow [var ''x'', operation op_add [var ''y'', val 1]]"
    and xy2: "operator_plus M (var ''x'') (operation op_pow [var ''y'', val 2]) =
      operation op_add [var ''x'', operation op_pow [var ''y'', val 2]]"
    by (simp_all add: pow_def operator_plus_def is_zero_value_def is_unit_value_def)
  have single: "write_to rules (pow (var ''y'') (val 2)) vs out =
     rules (val 2) vs (rules (var ''y'') vs out @ ''^'')"
    by (simp add: y2 stream_pow_to_def)
  have multi: "write_to rules (pow (var ''x'') (operator_plus M (var ''y'') (val 1))) vs out =
     rules (val 1) vs (rules (var ''y'') vs (rules (var ''x'') vs out @ ''^('') @ '' + '') @ '')''"
    by (simp add: y1 xy1 stream_pow_to_def stream_add_to_def)
  have whole: "write_to rules (operator_plus M (var ''x'') (pow (var ''y'') (val 2))) vs out =
     rules (val 2) vs (rules (var ''y'') vs (rules (var ''x'') vs out @ '' + '') @ ''^'')"
    by (simp add: y2 xy2 stream_pow_to_def stream_add_to_def)
  from power multi_term [of T2] sum single multi whole show ?thesis
    by (intro conjI)
qed

section \<open>Tensor operations\<close>

text \<open>
  C8. For every pair of tensors \<open>t1\<close> and \<open>t2\<close>, of whatever scalar types, \<open>t1 == t2\<close>
  returns true if and only if their shapes are equal and every element of \<open>t1\<close> compares
  equal to the corresponding element of \<open>t2\<close>, that is, \<^verbatim>\<open>!=\<close> on the two scalars is
  false; it returns a truth value in every case, false when the shapes differ, and never
  an error.
\<close>

theorem tensor_equality:
  fixes t1 :: "'a tensor" and t2 :: "'b tensor"
  assumes "well_formed t1" and "well_formed t2"
  shows "operator_eq ne t1 t2 =
     Inr (shape t1 = shape t2 \<and> list_all2 (\<lambda>x y. \<not> ne x y) (values t1) (values t2))"
proof (cases "shape t2 = shape t1")
  case False
  then show ?thesis by (auto simp: operator_eq_def)
next
  case True
  let ?f = "\<lambda>idx. as_flat_index_in idx (shape t1)"
  let ?p = "\<lambda>i. ne (values t1 ! i) (values t2 ! i)"
  let ?step = "\<lambda>idx all_equal.
        and_then all_equal (\<lambda>all_equal.
        and_then (operator_subscript t1 idx) (\<lambda>x.
        and_then (operator_subscript t2 idx) (\<lambda>y.
          Inr (if ne x y then False else all_equal))))"
  let ?h = "\<lambda>idx (b::bool). if ?p (?f idx) then False else b"
  have step: "?step idx (Inr b) = Inr (?h idx b) \<and> True"
    if "idx \<in> set (indices_in (shape t1))" for idx b
    using that True by (simp add: and_then_def operator_subscript_visited)
  have "fold ?step (indices_in (shape t1)) (Inr True) =
        Inr (fold ?h (indices_in (shape t1)) True) \<and> True"
    by (rule fold_Inr [where I = "\<lambda>_. True"]) (simp_all only: step)
  moreover have "fold ?h (indices_in (shape t1)) True =
        fold (\<lambda>i b. if ?p i then False else b) (map ?f (indices_in (shape t1))) True"
    by (simp add: fold_map comp_def)
  moreover have "\<dots> = (\<forall>i < count (shape t1). \<not> ?p i)"
    by (simp only: flat_indices_in fold_conj) auto
  moreover have "\<dots> = list_all2 (\<lambda>x y. \<not> ne x y) (values t1) (values t2)"
    using assms True by (simp add: well_formed_def list_all2_conv_all_nth)
  ultimately show ?thesis
    using True by (simp add: operator_eq_def visit_indices_in_def)
qed

theorem tensor_equality_witness:
  "well_formed \<lparr>shape = [2, 2], values = [1, 2, 3, 4 :: int]\<rparr> \<and>
   well_formed \<lparr>shape = [2, 2], values = [1, 2, 3, 5 :: int]\<rparr> \<and>
   well_formed \<lparr>shape = [4], values = [1, 2, 3, 4 :: int]\<rparr> \<and>
   well_formed \<lparr>shape = [2], values = [Some 1, None :: int option]\<rparr> \<and>
   operator_eq (\<lambda>x y. x \<noteq> y) \<lparr>shape = [2, 2], values = [1, 2, 3, 4 :: int]\<rparr>
               \<lparr>shape = [2, 2], values = [1, 2, 3, 4 :: int]\<rparr> = Inr True \<and>
   operator_eq (\<lambda>x y. x \<noteq> y) \<lparr>shape = [2, 2], values = [1, 2, 3, 4 :: int]\<rparr>
               \<lparr>shape = [2, 2], values = [1, 2, 3, 5 :: int]\<rparr> = Inr False \<and>
   operator_eq (\<lambda>x y. x \<noteq> y) \<lparr>shape = [2, 2], values = [1, 2, 3, 4 :: int]\<rparr>
               \<lparr>shape = [4], values = [1, 2, 3, 4 :: int]\<rparr> = Inr False \<and>
   operator_eq (\<lambda>x y. x = None \<or> y = None \<or> x \<noteq> y)
               \<lparr>shape = [2], values = [Some 1, None :: int option]\<rparr>
               \<lparr>shape = [2], values = [Some 1, None :: int option]\<rparr> = Inr False"
proof -
  have a: "well_formed \<lparr>shape = [2, 2], values = [1, 2, 3, 4 :: int]\<rparr>"
    and b: "well_formed \<lparr>shape = [2, 2], values = [1, 2, 3, 5 :: int]\<rparr>"
    and c: "well_formed \<lparr>shape = [4], values = [1, 2, 3, 4 :: int]\<rparr>"
    and n: "well_formed \<lparr>shape = [2], values = [Some 1, None :: int option]\<rparr>"
    by (simp_all add: well_formed_def count_def)
  from tensor_equality [OF a a, of "\<lambda>x y. x \<noteq> y"] tensor_equality [OF a b, of "\<lambda>x y. x \<noteq> y"]
    tensor_equality [OF a c, of "\<lambda>x y. x \<noteq> y"]
    tensor_equality [OF n n, of "\<lambda>x y. x = None \<or> y = None \<or> x \<noteq> y"] a b c n
  show ?thesis by simp
qed

text \<open>
  C6, as the sources have it. Tensor addition is defined exactly for two tensors of
  equal shape whose shape has at least one element (no extent is zero). The result is
  then the tensor of that shape whose every element is the sum of the corresponding
  elements of the operands: shapes \<open>(2,2)\<close> with elements \<open>[1,2,3,4]\<close> and \<open>[4,3,2,1]\<close>
  give \<open>[5,5,5,5]\<close>. With differing shapes, or with a shape that has no element, the
  addition is rejected as a construction error; nothing is broadcast.
\<close>

theorem tensor_addition:
  fixes A :: "'a tensor" and B :: "'b tensor" and plus_scalar :: "'a \<Rightarrow> 'b \<Rightarrow> 'c::zero"
  assumes "well_formed A" and "well_formed B"
  shows "addition_of plus_scalar A B =
     (if 0 < count (shape A) \<and> shape A = shape B
      then Inr \<lparr>shape = shape A, values = map2 plus_scalar (values A) (values B)\<rparr>
      else Inl construction_error)"
proof (cases "0 < count (shape A) \<and> shape A = shape B")
  case False
  then show ?thesis by (auto simp: addition_of_def concepts_tensor_count)
next
  case True
  then have posA: "0 < count (shape A)" and eq: "shape A = shape B"
    by blast+
  from posA have posB: "0 < count (shape B)"
    by (simp only: eq)
  note pos = posA posB
  then have concepts: "concepts_tensor A" "concepts_tensor B"
    by (simp_all add: concepts_tensor_count)
  let ?n = "count (shape A)"
  let ?f = "\<lambda>idx. as_flat_index_in idx (shape A)"
  let ?g = "\<lambda>i. plus_scalar (values A ! i) (values B ! i)"
  let ?step = "\<lambda>idx result.
        and_then result (\<lambda>result.
        and_then (access_at idx A) (\<lambda>a.
        and_then (access_at idx B) (\<lambda>b.
          subscript_assign result idx (plus_scalar a b))))"
  let ?h = "\<lambda>idx (r::'c tensor). r\<lparr>values := (values r)[?f idx := ?g (?f idx)]\<rparr>"
  let ?r0 = "tensor_default (shape A) :: 'c tensor"
  have r0: "shape ?r0 = shape A" "length (values ?r0) = ?n"
    by (simp_all add: tensor_default_def)
  have step: "?step idx (Inr r) = Inr (?h idx r) \<and> shape (?h idx r) = shape A"
    if "idx \<in> set (indices_in (shape A))" and "shape r = shape A" for idx r
    using that eq
    by (simp add: and_then_def access_at_def operator_subscript_visited
        subscript_assign_def visited_in_bounds)
  have "fold ?step (indices_in (shape A)) (Inr ?r0) =
        Inr (fold ?h (indices_in (shape A)) ?r0) \<and>
        shape (fold ?h (indices_in (shape A)) ?r0) = shape A"
    by (rule fold_Inr [where I = "\<lambda>r. shape r = shape A"]) (simp_all only: step r0)
  moreover have "fold ?h (indices_in (shape A)) ?r0 =
        ?r0\<lparr>values := fold (\<lambda>i vs. vs[i := ?g i]) (map ?f (indices_in (shape A))) (values ?r0)\<rparr>"
    by (rule fold_assign_values)
  moreover have "fold (\<lambda>i vs. vs[i := ?g i]) (map ?f (indices_in (shape A))) (values ?r0) =
        map ?g [0..<?n]"
    by (simp only: flat_indices_in) (simp add: fold_update_upt r0)
  moreover have "map ?g [0..<?n] = map2 plus_scalar (values A) (values B)"
    using assms eq by (intro map_nth_zip) (simp_all add: well_formed_def)
  ultimately show ?thesis
    using pos eq concepts by (simp add: addition_of_def visit_indices_in_def tensor_default_def)
qed

theorem tensor_addition_witness:
  "well_formed \<lparr>shape = [2, 2], values = [1, 2, 3, 4 :: int]\<rparr> \<and>
   well_formed \<lparr>shape = [2, 2], values = [4, 3, 2, 1 :: int]\<rparr> \<and>
   well_formed \<lparr>shape = [4], values = [4, 3, 2, 1 :: int]\<rparr> \<and>
   addition_of (+) \<lparr>shape = [2, 2], values = [1, 2, 3, 4 :: int]\<rparr>
                   \<lparr>shape = [2, 2], values = [4, 3, 2, 1 :: int]\<rparr> =
     Inr \<lparr>shape = [2, 2], values = [5, 5, 5, 5 :: int]\<rparr> \<and>
   addition_of (+) \<lparr>shape = [2, 2], values = [1, 2, 3, 4 :: int]\<rparr>
                   \<lparr>shape = [4], values = [4, 3, 2, 1 :: int]\<rparr> =
     (Inl construction_error :: error + int tensor)"
proof -
  have a: "well_formed \<lparr>shape = [2, 2], values = [1, 2, 3, 4 :: int]\<rparr>"
    and b: "well_formed \<lparr>shape = [2, 2], values = [4, 3, 2, 1 :: int]\<rparr>"
    and c: "well_formed \<lparr>shape = [4], values = [4, 3, 2, 1 :: int]\<rparr>"
    by (simp_all add: well_formed_def count_def)
  from tensor_addition [OF a b, of "(+)"] tensor_addition [OF a c, of "(+)"] a b c
  show ?thesis by (simp add: count_def)
qed

text \<open>
  C6, as the spec states it, fails for a shape without elements: two tensors of the
  equal shape \<open>(0)\<close> do not satisfy the tensor concept, and their addition is rejected.
\<close>

theorem tensor_addition_counterexample:
  "well_formed \<lparr>shape = [0], values = ([] :: int list)\<rparr> \<and>
   addition_of (+) \<lparr>shape = [0], values = ([] :: int list)\<rparr>
                   \<lparr>shape = [0], values = ([] :: int list)\<rparr> =
     (Inl construction_error :: error + int tensor)"
  by (simp add: well_formed_def count_def addition_of_def concepts_tensor_count)




end
